theory Spec2Isabelle
  imports Main
begin

section \<open>Data model\<close>

text \<open>
  The plugin's visitors (src/index.js) work on nodes of the host's syntax tree and on the
  plugin options. Only the node types and fields the visitors read or write are modelled.
  \<^item> A template chunk (TemplateElement) carries \<open>value.raw\<close> and \<open>value.cooked\<close>.
  \<^item> A regex literal carries \<open>pattern\<close>, \<open>flags\<close> and \<open>extra.raw\<close>; the third
    field is \<open>None\<close> when the node has no \<open>extra\<close> object.
  \<^item> \<open>OtherNode ty\<close> is a node of any other type \<open>ty\<close> (a member expression, a spread
    element, a call, ...).
  JavaScript strings are modelled as \<open>string\<close>.
\<close>

datatype template_element = TemplateElement (value_raw: string) (value_cooked: string)

datatype node =
    Identifier string
  | StringLiteral string
  | TemplateLiteral "template_element list" "node list"
  | RegExpLiteral string string "string option"
  | NewExpression node "node list"
  | TaggedTemplateExpression node node
  | OtherNode string

text \<open>
  Option values are JavaScript values; \<open>JUndefined\<close> is an absent option. Numbers are
  integers or NaN, \<open>JObject\<close> is any object that is not an array.
\<close>

datatype js_value =
    JUndefined
  | JNull
  | JBool bool
  | JNum int
  | JNaN
  | JStr string
  | JArr "js_value list"
  | JObject

fun truthy :: "js_value \<Rightarrow> bool" where
  "truthy JUndefined = False"
| "truthy JNull = False"
| "truthy (JBool b) = b"
| "truthy (JNum n) = (n \<noteq> 0)"
| "truthy JNaN = False"
| "truthy (JStr s) = (s \<noteq> [])"
| "truthy (JArr xs) = True"
| "truthy JObject = True"

record plugin_opts =
  features :: js_value
  useRe :: js_value
  useRuntime :: js_value

record plugin_state =
  opts :: plugin_opts

datatype error = Error string | TypeError string | SyntaxError string

text \<open>
  What a visitor did to the path it was called on: nothing, an assignment to fields of the
  node it was given (the node stays in the tree, with the fields shown), or
  \<open>path.replaceWith\<close> with a new node. An exception is the first component of a
  visitor's result; the second is what had been done to the path when it was raised.
\<close>

datatype change = Untouched | Mutated node | Replaced node

type_synonym outcome = "error option \<times> change"

fun apply_change :: "node \<Rightarrow> change \<Rightarrow> node" where
  "apply_change n Untouched = n"
| "apply_change n (Mutated m) = m"
| "apply_change n (Replaced m) = m"

section \<open>String primitives of the host language\<close>

text \<open>
  \<open>s.lastIndexOf(c)\<close> for a one-character search string: the greatest index holding
  \<open>c\<close>, or -1.
\<close>

fun lastIndexOf :: "string \<Rightarrow> char \<Rightarrow> int" where
  "lastIndexOf [] c = -1"
| "lastIndexOf (x # xs) c =
     (let r = lastIndexOf xs c
      in if 0 \<le> r then r + 1 else if x = c then 0 else -1)"

text \<open>
  \<open>s.slice(start, end)\<close> and \<open>s.slice(start)\<close>: a negative index counts from the end
  of the string, and both indices are clamped to the string.
\<close>

definition clamp_index :: "string \<Rightarrow> int \<Rightarrow> nat" where
  "clamp_index s i =
     (if i < 0 then nat (max (int (length s) + i) 0) else nat (min i (int (length s))))"

definition slice :: "string \<Rightarrow> int \<Rightarrow> int \<Rightarrow> string" where
  "slice s start end' =
     take (clamp_index s end' - clamp_index s start) (drop (clamp_index s start) s)"

definition slice_from :: "string \<Rightarrow> int \<Rightarrow> string" where
  "slice_from s start = drop (clamp_index s start) s"

section \<open>Building a regex literal node\<close>

text \<open>
  \<open>toRegExpLiteral\<close> (index.js 241-257): the pattern is the text between index 1 and the
  last slash, the flags are \<open>raw.slice(slashIndex)\<close>, and the node's \<open>extra\<close> is
  \<open>{raw}\<close>.
\<close>

definition toRegExpLiteral :: "string \<Rightarrow> node" where
  "toRegExpLiteral raw =
     (let slashIndex = lastIndexOf raw (CHR ''/'');
          pattern = slice raw 1 slashIndex;
          flags = slice_from raw slashIndex
      in RegExpLiteral pattern flags (Some raw))"

fun extra_raw :: "node \<Rightarrow> string option" where
  "extra_raw (RegExpLiteral pattern flags extra) = extra"
| "extra_raw n = None"

section \<open>The translation engine and the dispatcher\<close>

text \<open>
  The engine (\<open>regexpTree.compatTranspile\<close>) is an external collaborator and a parameter
  of the model: given the raw text and the whitelist it raises or returns an object with
  \<open>getSource()\<close> and \<open>getFlags()\<close>.
\<close>

record compat =
  getSource :: string
  getFlags :: string

type_synonym engine = "string \<Rightarrow> js_value \<Rightarrow> error + compat"

record translated =
  pattern :: string
  flags :: string

fun isArray :: "js_value \<Rightarrow> bool" where
  "isArray (JArr xs) = True"
| "isArray v = False"

fun array_length :: "js_value \<Rightarrow> nat" where
  "array_length (JArr xs) = length xs"
| "array_length v = 0"

text \<open>\<open>getTranslatedData\<close> (index.js 335-348, and the same text at 108-121).\<close>

definition getTranslatedData :: "engine \<Rightarrow> string \<Rightarrow> plugin_state \<Rightarrow> error + translated" where
  "getTranslatedData compatTranspile regexp st =
     (let whitelist =
            (if isArray (features (opts st)) \<and> 0 < array_length (features (opts st))
             then features (opts st) else JUndefined)
      in case compatTranspile regexp whitelist of
           Inl e \<Rightarrow> Inl e
         | Inr c \<Rightarrow> Inr \<lparr>pattern = getSource c, flags = getFlags c\<rparr>)"

section \<open>Configuration\<close>

text \<open>\<open>pre\<close> (index.js 260-264).\<close>

definition pre :: "plugin_state \<Rightarrow> error + unit" where
  "pre st =
     (if truthy (useRuntime (opts st))
      then Inl (Error ''useRuntime is not implemented yet.'')
      else Inr ())"

section \<open>Matchers\<close>

text \<open>
  \<open>isNewRegExp\<close> (index.js 355-366, and the same text at 128-139), on the callee and the
  arguments of a NewExpression node. The chain of \<open>&&\<close> yields \<open>false\<close> when the callee
  test fails, \<open>undefined\<close> when there is no first argument, and the boolean of the last
  operand otherwise.
\<close>

fun isNewRegExp :: "node \<Rightarrow> node list \<Rightarrow> js_value" where
  "isNewRegExp (Identifier name) arguments =
     (if name = ''RegExp'' then
        (case arguments of
           [] \<Rightarrow> JUndefined
         | a0 # rest \<Rightarrow>
             JBool (case a0 of
                      StringLiteral v \<Rightarrow> True
                    | TemplateLiteral quasis expressions \<Rightarrow>
                        length expressions = 0 \<and> length quasis = 1
                    | _ \<Rightarrow> False))
      else JBool False)"
| "isNewRegExp callee arguments = JBool False"

text \<open>
  \<open>isReTemplate\<close> (index.js 368-375), on the tag and the quasi of a
  TaggedTemplateExpression node.
\<close>

fun isReTemplate :: "node \<Rightarrow> node \<Rightarrow> bool" where
  "isReTemplate (Identifier name) (TemplateLiteral quasis expressions) =
     (name = ''re'' \<and> length quasis = 1)"
| "isReTemplate tag quasi = False"

section \<open>Escape normalisation of the shorthand template\<close>

abbreviation backslash :: char where
  "backslash \<equiv> CHR 0x5C"

definition digit :: "char \<Rightarrow> bool" where
  "digit c = (c \<in> set ''0123456789'')"

text \<open>
  The global replace of index.js 291: scanning from the left, two backslashes followed by a
  longest non-empty run of digits become one backslash and the digits, and the scan goes on
  after the digits; any other character is copied.
\<close>

function unescape_backrefs :: "string \<Rightarrow> string" where
  "unescape_backrefs [] = []"
| "unescape_backrefs [c] = [c]"
| "unescape_backrefs (c # c' # rest) =
     (if c = backslash \<and> c' = backslash \<and> takeWhile digit rest \<noteq> []
      then backslash # takeWhile digit rest @ unescape_backrefs (dropWhile digit rest)
      else c # unescape_backrefs (c' # rest))"
  by pat_completeness auto
termination
  by (relation "measure length") (auto simp: less_Suc_eq_le intro: le_trans [OF length_dropWhile_le])

text \<open>An occurrence of two backslashes and a digit somewhere in the text.\<close>

fun has_escaped_backref :: "string \<Rightarrow> bool" where
  "has_escaped_backref (a # b # c # rest) =
     ((a = backslash \<and> b = backslash \<and> digit c) \<or> has_escaped_backref (b # c # rest))"
| "has_escaped_backref s = False"

section \<open>Visitors\<close>

text \<open>\<open>RegExpLiteral\<close> (index.js 271-273, and the same text at 69-71).\<close>

definition visit_RegExpLiteral ::
  "engine \<Rightarrow> plugin_state \<Rightarrow> string \<Rightarrow> string \<Rightarrow> string option \<Rightarrow> outcome" where
  "visit_RegExpLiteral compatTranspile st pat fl extra =
     (case extra of
        None \<Rightarrow> (Some (TypeError ''Cannot read property raw of undefined''), Untouched)
      | Some raw \<Rightarrow>
          (case getTranslatedData compatTranspile raw st of
             Inl e \<Rightarrow> (Some e, Untouched)
           | Inr d \<Rightarrow> (None, Mutated (RegExpLiteral (pattern d) (flags d) (Some raw)))))"

text \<open>\<open>TaggedTemplateExpression\<close> (index.js 279-294).\<close>

definition visit_TaggedTemplateExpression :: "plugin_state \<Rightarrow> node \<Rightarrow> node \<Rightarrow> outcome" where
  "visit_TaggedTemplateExpression st tag quasi =
     (if \<not> truthy (useRe (opts st)) \<or> \<not> isReTemplate tag quasi then (None, Untouched)
      else
        (case quasi of
           TemplateLiteral (q # qs) expressions \<Rightarrow>
             (None, Replaced (toRegExpLiteral (unescape_backrefs (value_raw q))))
         | _ \<Rightarrow> (Some (TypeError ''Cannot read property value of undefined''), Untouched)))"

text \<open>
  The pattern and flags a constructor call is read for (index.js 308-324, and with other
  variable names 79-95). \<open>pattern\<close> stays undefined when the first argument is of neither
  type, and the template string then prints it as \<open>undefined\<close>; reading the first chunk
  of a template literal without chunks raises.
\<close>

definition pattern_of :: "node list \<Rightarrow> error + string" where
  "pattern_of arguments =
     (case arguments of
        [] \<Rightarrow> Inl (TypeError ''Cannot read property type of undefined'')
      | a0 # rest \<Rightarrow>
          (case a0 of
             StringLiteral v \<Rightarrow> Inr v
           | TemplateLiteral quasis expressions \<Rightarrow>
               (case quasis of
                  [] \<Rightarrow> Inl (TypeError ''Cannot read property value of undefined'')
                | q # qs \<Rightarrow> Inr (value_cooked q))
           | _ \<Rightarrow> Inr ''undefined''))"

definition flags_of :: "node list \<Rightarrow> error + string" where
  "flags_of arguments =
     (case arguments of
        a0 # a1 # rest \<Rightarrow>
          (case a1 of
             StringLiteral v \<Rightarrow> Inr v
           | TemplateLiteral quasis expressions \<Rightarrow>
               (case quasis of
                  [] \<Rightarrow> Inl (TypeError ''Cannot read property value of undefined'')
                | q # qs \<Rightarrow> Inr (value_cooked q))
           | _ \<Rightarrow> Inr [])
      | _ \<Rightarrow> Inr [])"

text \<open>\<open>NewExpression\<close> as index.js 301-329 has it: the call is replaced by a literal.\<close>

definition visit_NewExpression :: "plugin_state \<Rightarrow> node \<Rightarrow> node list \<Rightarrow> outcome" where
  "visit_NewExpression st callee arguments =
     (if \<not> truthy (isNewRegExp callee arguments) then (None, Untouched)
      else
        (case pattern_of arguments of
           Inl e \<Rightarrow> (Some e, Untouched)
         | Inr pat \<Rightarrow>
             (case flags_of arguments of
                Inl e \<Rightarrow> (Some e, Untouched)
              | Inr fl \<Rightarrow> (None, Replaced (toRegExpLiteral (''/'' @ pat @ ''/'' @ fl))))))"

text \<open>
  \<open>NewExpression\<close> as index.js 74-102 has it: the translation is asked for, then the first
  two arguments are assigned (an assignment to index 1 of a one-element array extends it).
\<close>

definition visit_NewExpression_inplace ::
  "engine \<Rightarrow> plugin_state \<Rightarrow> node \<Rightarrow> node list \<Rightarrow> outcome" where
  "visit_NewExpression_inplace compatTranspile st callee arguments =
     (if \<not> truthy (isNewRegExp callee arguments) then (None, Untouched)
      else
        (case pattern_of arguments of
           Inl e \<Rightarrow> (Some e, Untouched)
         | Inr origPattern \<Rightarrow>
             (case flags_of arguments of
                Inl e \<Rightarrow> (Some e, Untouched)
              | Inr origFlags \<Rightarrow>
                  (case getTranslatedData compatTranspile
                          (''/'' @ origPattern @ ''/'' @ origFlags) st of
                     Inl e \<Rightarrow> (Some e, Untouched)
                   | Inr d \<Rightarrow>
                       (None, Mutated (NewExpression callee
                          (StringLiteral (pattern d) # StringLiteral (flags d)
                             # drop 2 arguments)))))))"

section \<open>The host's traversal\<close>

text \<open>
  The host calls the visitor registered for a node's type. A node put in place by
  \<open>path.replaceWith\<close> is queued again and visited in its turn: this is how the literal
  that replaces a constructor call or a shorthand template gets translated. The
  replacements here are regex literals, whose visitor replaces nothing, so one further
  visit is all there is. The result is the exception, if one was raised, and the node that
  stands in the tree afterwards.
\<close>

fun visit_node :: "engine \<Rightarrow> plugin_state \<Rightarrow> node \<Rightarrow> outcome" where
  "visit_node ct st (RegExpLiteral pat fl extra) = visit_RegExpLiteral ct st pat fl extra"
| "visit_node ct st (TaggedTemplateExpression tag quasi) =
     visit_TaggedTemplateExpression st tag quasi"
| "visit_node ct st (NewExpression callee arguments) = visit_NewExpression st callee arguments"
| "visit_node ct st n = (None, Untouched)"

definition visit :: "engine \<Rightarrow> plugin_state \<Rightarrow> node \<Rightarrow> error option \<times> node" where
  "visit ct st n =
     (case visit_node ct st n of
        (Some e, ch) \<Rightarrow> (Some e, apply_change n ch)
      | (None, Replaced m) \<Rightarrow>
          (case visit_node ct st m of (err, ch) \<Rightarrow> (err, apply_change m ch))
      | (None, ch) \<Rightarrow> (None, apply_change n ch))"

text \<open>
  The host calls \<open>pre\<close> with the File of the compilation unit (\<open>fn.call(pass, file)\<close>),
  not with the state it hands to the visitors. The File's \<open>opts\<close> are the host's own
  options; \<open>features\<close>, \<open>useRe\<close> and \<open>useRuntime\<close> are not among them (the host refuses an
  option it does not know), so each of the three reads as undefined there.
\<close>

definition host_file :: plugin_state where
  "host_file = \<lparr>opts = \<lparr>features = JUndefined, useRe = JUndefined, useRuntime = JUndefined\<rparr>\<rparr>"

text \<open>
  One pass over the nodes the traversal reaches: \<open>pre\<close> first, on the File, then the
  visitors on the nodes in order, with the plugin's state; an exception ends the pass.
\<close>

fun traverse :: "engine \<Rightarrow> plugin_state \<Rightarrow> node list \<Rightarrow> error option \<times> node list" where
  "traverse ct st [] = (None, [])"
| "traverse ct st (n # ns) =
     (case visit ct st n of
        (Some e, n') \<Rightarrow> (Some e, n' # ns)
      | (None, n') \<Rightarrow> (case traverse ct st ns of (err, ns') \<Rightarrow> (err, n' # ns')))"

definition transform :: "engine \<Rightarrow> plugin_state \<Rightarrow> node list \<Rightarrow> error option \<times> node list" where
  "transform ct st ns =
     (case pre host_file of
        Inl e \<Rightarrow> (Some e, ns)
      | Inr u \<Rightarrow> traverse ct st ns)"

text \<open>
  In a template literal of the host's parser there is one chunk more than there are
  interpolated expressions.
\<close>

fun well_formed_template :: "node \<Rightarrow> bool" where
  "well_formed_template (TemplateLiteral quasis expressions) =
     (length quasis = length expressions + 1)"
| "well_formed_template n = True"

text \<open>A configuration without options, and two engines used to run the model.\<close>

definition no_options :: plugin_state where
  "no_options = \<lparr>opts = \<lparr>features = JUndefined, useRe = JUndefined, useRuntime = JUndefined\<rparr>\<rparr>"

definition rejecting_engine :: engine where
  "rejecting_engine raw whitelist = Inl (SyntaxError raw)"

definition constant_engine :: "string \<Rightarrow> string \<Rightarrow> engine" where
  "constant_engine src fl raw whitelist = Inr \<lparr>getSource = src, getFlags = fl\<rparr>"

section \<open>Auxiliary facts\<close>

lemma isNewRegExp_cases:
  "isNewRegExp callee args = JBool True \<or> isNewRegExp callee args = JBool False
   \<or> isNewRegExp callee args = JUndefined"
  by (cases "(callee, args)" rule: isNewRegExp.cases) (auto split: list.splits node.splits)

lemma isNewRegExp_truthy:
  "truthy (isNewRegExp callee args) \<longleftrightarrow> isNewRegExp callee args = JBool True"
  using isNewRegExp_cases [of callee args] by auto

lemma extra_raw_toRegExpLiteral: "extra_raw (toRegExpLiteral r) = Some r"
  by (simp add: toRegExpLiteral_def Let_def)

lemma matched_pattern_of:
  assumes "isNewRegExp callee args = JBool True"
  shows "\<exists>p. pattern_of args = Inr p"
  using assms
  by (cases "(callee, args)" rule: isNewRegExp.cases)
     (auto split: node.splits if_splits list.splits simp: length_Suc_conv pattern_of_def)

lemma lastIndexOf_absent: "c \<notin> set f \<Longrightarrow> lastIndexOf f c = -1"
  by (induction f) (auto simp: Let_def)

lemma lastIndexOf_last: "c \<notin> set f \<Longrightarrow> lastIndexOf (u @ c # f) c = int (length u)"
  by (induction u) (auto simp: Let_def lastIndexOf_absent)

text \<open>
  For flags without a slash, the literal built from the raw form has the pattern it was
  built from and flags that start with the slash.
\<close>

lemma toRegExpLiteral_raw_form:
  assumes "CHR ''/'' \<notin> set f"
  shows "toRegExpLiteral (''/'' @ p @ ''/'' @ f)
           = RegExpLiteral p (''/'' @ f) (Some (''/'' @ p @ ''/'' @ f))"
proof -
  have li: "lastIndexOf (CHR ''/'' # p @ CHR ''/'' # f) (CHR ''/'') = int (Suc (length p))"
    using lastIndexOf_last [OF assms, of "CHR ''/'' # p"] by (simp del: lastIndexOf.simps)
  have n: "nat (1 + int (length p)) = Suc (length p)"
    by simp
  show ?thesis
    by (simp del: lastIndexOf.simps
          add: li n toRegExpLiteral_def slice_def slice_from_def clamp_index_def)
qed

lemma not_digit_backslash: "\<not> digit backslash"
  by (simp add: digit_def)

lemma has_escaped_backref_tl:
  "\<not> has_escaped_backref (a # u) \<Longrightarrow> \<not> has_escaped_backref u"
  by (cases "a # u" rule: has_escaped_backref.cases) auto

lemma takeWhile_digits_run:
  assumes "list_all digit d" and "case v of [] \<Rightarrow> True | c # cs \<Rightarrow> \<not> digit c"
  shows "takeWhile digit (d @ v) = d" and "dropWhile digit (d @ v) = v"
  using assms by (induction d) (auto split: list.splits)

lemma unescape_no_occurrence:
  "\<not> has_escaped_backref s \<Longrightarrow> unescape_backrefs s = s"
proof (induction s rule: unescape_backrefs.induct)
  case 1
  then show ?case by simp
next
  case (2 c)
  then show ?case by simp
next
  case (3 c c' rest)
  have t: "\<not> has_escaped_backref (c' # rest)"
    using "3.prems" by (rule has_escaped_backref_tl)
  have n: "\<not> (c = backslash \<and> c' = backslash \<and> takeWhile digit rest \<noteq> [])"
    using "3.prems" by (cases rest) auto
  show ?case
    using n "3.IH"(2) t by auto
qed

lemma unescape_prefix:
  assumes "\<not> has_escaped_backref u"
  shows "unescape_backrefs (u @ backslash # backslash # w)
           = u @ unescape_backrefs (backslash # backslash # w)"
  using assms
proof (induction u)
  case Nil
  then show ?case by simp
next
  case (Cons a u)
  have t: "\<not> has_escaped_backref u"
    using Cons.prems by (rule has_escaped_backref_tl)
  obtain c' rest where cr: "u @ backslash # backslash # w = c' # rest"
    by (cases u) auto
  have n: "\<not> (a = backslash \<and> c' = backslash \<and> takeWhile digit rest \<noteq> [])"
  proof (cases u)
    case Nil
    then show ?thesis using cr by (auto simp: not_digit_backslash)
  next
    case (Cons x u')
    note u = Cons
    show ?thesis
    proof (cases u')
      case Nil
      then show ?thesis using cr u by (auto simp: not_digit_backslash)
    next
      case (Cons y u'')
      then show ?thesis using cr u \<open>\<not> has_escaped_backref (a # u)\<close> by auto
    qed
  qed
  have "unescape_backrefs (a # c' # rest) = a # unescape_backrefs (c' # rest)"
    using n by auto
  then have "unescape_backrefs ((a # u) @ backslash # backslash # w)
               = a # unescape_backrefs (u @ backslash # backslash # w)"
    by (simp only: cr append_Cons)
  then show ?case using Cons.IH [OF t] by simp
qed

lemma has_escaped_backref_Cons:
  assumes "\<not> has_escaped_backref u"
      and "\<not> (a = backslash \<and> b = backslash \<and> digit c)"
      and "u @ w = b # c # rest"
  shows "\<not> has_escaped_backref (a # u)"
proof (cases u)
  case Nil
  then show ?thesis by simp
next
  case (Cons x u')
  note u = Cons
  show ?thesis
  proof (cases u')
    case Nil
    then show ?thesis using u by simp
  next
    case (Cons y u'')
    then show ?thesis using u assms by auto
  qed
qed

text \<open>
  A text with an occurrence splits at its first one: a part without occurrence, two
  backslashes, the longest run of digits, and the rest.
\<close>

lemma escaped_backref_split:
  "has_escaped_backref s \<Longrightarrow>
     \<exists>u d v. s = u @ [backslash, backslash] @ d @ v \<and> \<not> has_escaped_backref u
       \<and> d \<noteq> [] \<and> list_all digit d \<and> (case v of [] \<Rightarrow> True | c # cs \<Rightarrow> \<not> digit c)"
proof (induction s rule: has_escaped_backref.induct)
  case (1 a b c rest)
  show ?case
  proof (cases "a = backslash \<and> b = backslash \<and> digit c")
    case True
    let ?d = "takeWhile digit (c # rest)"
    let ?v = "dropWhile digit (c # rest)"
    have "a # b # c # rest = [] @ [backslash, backslash] @ ?d @ ?v"
      using True by simp
    moreover have "?d \<noteq> []" using True by simp
    moreover have "list_all digit ?d"
      by (simp add: list_all_iff) (meson set_takeWhileD)
    moreover have "case ?v of [] \<Rightarrow> True | x # xs \<Rightarrow> \<not> digit x"
      using hd_dropWhile [of digit "c # rest"] by (auto split: list.splits)
    ultimately show ?thesis
      by (metis has_escaped_backref.simps(2))
  next
    case False
    with "1.prems" have "has_escaped_backref (b # c # rest)" by simp
    from "1.IH" [OF this] obtain u d v where
      s: "b # c # rest = u @ [backslash, backslash] @ d @ v" and
      u: "\<not> has_escaped_backref u" and
      d: "d \<noteq> []" "list_all digit d" "case v of [] \<Rightarrow> True | c # cs \<Rightarrow> \<not> digit c"
      by blast
    have "\<not> has_escaped_backref (a # u)"
      using has_escaped_backref_Cons [OF u False s [symmetric]] .
    moreover have "a # b # c # rest = (a # u) @ [backslash, backslash] @ d @ v"
      using s by simp
    ultimately show ?thesis using d by blast
  qed
qed simp_all

section \<open>Building a literal from its raw text\<close>

text \<open>
  C2, at the input \<open>/a/i\<close>: the literal built from the raw form of pattern \<open>a\<close> and
  flags \<open>i\<close> has pattern \<open>a\<close>, but its flags field is \<open>/i\<close>: \<open>raw.slice(slashIndex)\<close>
  starts at the slash, not after it.
\<close>

theorem toRegExpLiteral_flags_keep_slash:
  "toRegExpLiteral (''/'' @ ''a'' @ ''/'' @ ''i'') = RegExpLiteral ''a'' ''/i'' (Some ''/a/i'')"
  by (simp add: toRegExpLiteral_def slice_def slice_from_def clamp_index_def)

text \<open>
  C10: a node built by \<open>toRegExpLiteral\<close> is a regex literal whose \<open>extra.raw\<close> is the
  raw text it was built from. Every node the NewExpression and TaggedTemplateExpression
  visitors put in the tree is such a node, and the RegExpLiteral visitor, called on it,
  finds \<open>extra.raw\<close> and hands that text to the dispatcher.
\<close>

theorem toRegExpLiteral_extra_raw:
  "extra_raw (toRegExpLiteral raw) = Some raw
   \<and> (\<exists>p f. toRegExpLiteral raw = RegExpLiteral p f (Some raw))
   \<and> (visit_NewExpression st callee args = (err, Replaced m) \<longrightarrow>
        (\<exists>r. m = toRegExpLiteral r \<and> extra_raw m = Some r))
   \<and> (visit_TaggedTemplateExpression st tag quasi = (err, Replaced m) \<longrightarrow>
        (\<exists>r. m = toRegExpLiteral r \<and> extra_raw m = Some r))
   \<and> visit_node ct st (toRegExpLiteral raw) =
        (case getTranslatedData ct raw st of
           Inl e \<Rightarrow> (Some e, Untouched)
         | Inr d \<Rightarrow> (None, Mutated (RegExpLiteral (pattern d) (flags d) (Some raw))))"
proof -
  have a: "visit_NewExpression st callee args = (err, Replaced m) \<Longrightarrow>
        (\<exists>r. m = toRegExpLiteral r \<and> extra_raw m = Some r)"
    by (auto simp: visit_NewExpression_def extra_raw_toRegExpLiteral split: if_splits sum.splits)
  have b: "visit_TaggedTemplateExpression st tag quasi = (err, Replaced m) \<Longrightarrow>
        (\<exists>r. m = toRegExpLiteral r \<and> extra_raw m = Some r)"
    by (auto simp: visit_TaggedTemplateExpression_def extra_raw_toRegExpLiteral
          split: if_splits node.splits list.splits)
  have c: "visit_node ct st (toRegExpLiteral raw) =
        (case getTranslatedData ct raw st of
           Inl e \<Rightarrow> (Some e, Untouched)
         | Inr d \<Rightarrow> (None, Mutated (RegExpLiteral (pattern d) (flags d) (Some raw))))"
    by (simp add: toRegExpLiteral_def Let_def visit_RegExpLiteral_def)
  have d: "\<exists>p f. toRegExpLiteral raw = RegExpLiteral p f (Some raw)"
    by (simp add: toRegExpLiteral_def Let_def)
  show ?thesis using a b c d by (simp add: extra_raw_toRegExpLiteral)
qed

theorem toRegExpLiteral_extra_raw_witness:
  "visit_NewExpression no_options (Identifier ''RegExp'') [StringLiteral ''a'']
     = (None, Replaced (RegExpLiteral ''a'' ''/'' (Some ''/a/'')))
   \<and> extra_raw (RegExpLiteral ''a'' ''/'' (Some ''/a/'')) = Some ''/a/''
   \<and> visit_TaggedTemplateExpression
        \<lparr>opts = \<lparr>features = JUndefined, useRe = JBool True, useRuntime = JUndefined\<rparr>\<rparr>
        (Identifier ''re'') (TemplateLiteral [TemplateElement ''/x/g'' ''/x/g''] [])
     = (None, Replaced (RegExpLiteral ''x'' ''/g'' (Some ''/x/g'')))
   \<and> (\<exists>r. RegExpLiteral ''x'' ''/g'' (Some ''/x/g'') = toRegExpLiteral r)"
proof -
  have n: "visit_NewExpression no_options (Identifier ''RegExp'') [StringLiteral ''a'']
     = (None, Replaced (RegExpLiteral ''a'' ''/'' (Some ''/a/'')))"
    by (simp add: visit_NewExpression_def pattern_of_def flags_of_def toRegExpLiteral_def
          slice_def slice_from_def clamp_index_def)
  have t: "visit_TaggedTemplateExpression
        \<lparr>opts = \<lparr>features = JUndefined, useRe = JBool True, useRuntime = JUndefined\<rparr>\<rparr>
        (Identifier ''re'') (TemplateLiteral [TemplateElement ''/x/g'' ''/x/g''] [])
     = (None, Replaced (RegExpLiteral ''x'' ''/g'' (Some ''/x/g'')))"
    by (simp add: visit_TaggedTemplateExpression_def toRegExpLiteral_def
          slice_def slice_from_def clamp_index_def)
  from toRegExpLiteral_extra_raw
    [of "''/a/''" no_options "Identifier ''RegExp''" "[StringLiteral ''a'']" None
        "RegExpLiteral ''a'' ''/'' (Some ''/a/'')"] n
  have 1: "extra_raw (RegExpLiteral ''a'' ''/'' (Some ''/a/'')) = Some ''/a/''"
    by auto
  from toRegExpLiteral_extra_raw
    [where st = "\<lparr>opts = \<lparr>features = JUndefined, useRe = JBool True, useRuntime = JUndefined\<rparr>\<rparr>"
       and tag = "Identifier ''re''"
       and quasi = "TemplateLiteral [TemplateElement ''/x/g'' ''/x/g''] []"
       and err = None and m = "RegExpLiteral ''x'' ''/g'' (Some ''/x/g'')"] t
  have 2: "\<exists>r. RegExpLiteral ''x'' ''/g'' (Some ''/x/g'') = toRegExpLiteral r"
    by auto
  show ?thesis using n t 1 2 by simp
qed

section \<open>Matching a constructor call\<close>

text \<open>
  C7: \<open>isNewRegExp\<close> returns \<open>true\<close> exactly when the callee is the identifier
  \<open>RegExp\<close> and there is a first argument that is a string literal or a template literal
  with no expression and one chunk. Whenever it does not return \<open>true\<close>, the
  NewExpression visitor (both as index.js 301-329 and as 74-102 has it) returns without
  touching the node.
\<close>

theorem isNewRegExp_iff:
  "(isNewRegExp callee args = JBool True \<longleftrightarrow>
      callee = Identifier ''RegExp'' \<and>
      (\<exists>a0 rest. args = a0 # rest \<and>
         ((\<exists>v. a0 = StringLiteral v) \<or> (\<exists>q. a0 = TemplateLiteral [q] []))))
   \<and> (isNewRegExp callee args \<noteq> JBool True \<longrightarrow>
         visit_NewExpression st callee args = (None, Untouched)
         \<and> visit_NewExpression_inplace ct st callee args = (None, Untouched))"
proof (intro conjI impI)
  show "isNewRegExp callee args = JBool True \<longleftrightarrow>
      callee = Identifier ''RegExp'' \<and>
      (\<exists>a0 rest. args = a0 # rest \<and>
         ((\<exists>v. a0 = StringLiteral v) \<or> (\<exists>q. a0 = TemplateLiteral [q] [])))"
    by (cases "(callee, args)" rule: isNewRegExp.cases)
       (auto split: list.splits node.splits simp: length_Suc_conv)
next
  assume "isNewRegExp callee args \<noteq> JBool True"
  then have nt: "\<not> truthy (isNewRegExp callee args)"
    by (simp add: isNewRegExp_truthy)
  show "visit_NewExpression st callee args = (None, Untouched)"
    using nt by (simp add: visit_NewExpression_def)
  show "visit_NewExpression_inplace ct st callee args = (None, Untouched)"
    using nt by (simp add: visit_NewExpression_inplace_def)
qed

theorem isNewRegExp_iff_witness:
  "isNewRegExp (Identifier ''RegExp'') [Identifier ''source''] \<noteq> JBool True
   \<and> visit_NewExpression no_options (Identifier ''RegExp'') [Identifier ''source'']
       = (None, Untouched)
   \<and> visit_NewExpression_inplace (constant_engine ''a'' ''i'') no_options
       (Identifier ''RegExp'') [Identifier ''source''] = (None, Untouched)
   \<and> isNewRegExp (Identifier ''RegExp'') [TemplateLiteral [TemplateElement ''a'' ''a''] []]
       = JBool True"
proof -
  have h: "isNewRegExp (Identifier ''RegExp'') [Identifier ''source''] \<noteq> JBool True"
    by simp
  have t: "isNewRegExp (Identifier ''RegExp'') [TemplateLiteral [TemplateElement ''a'' ''a''] []]
       = JBool True"
    using isNewRegExp_iff
      [of "Identifier ''RegExp''" "[TemplateLiteral [TemplateElement ''a'' ''a''] []]"]
    by blast
  show ?thesis
    using h t isNewRegExp_iff [of "Identifier ''RegExp''" "[Identifier ''source'']" no_options
        "constant_engine ''a'' ''i''"]
    by blast
qed

section \<open>Rewriting a constructor call\<close>

text \<open>
  C1 as stated fails for the visitor of index.js 301-329. On the matched call
  \<open>new RegExp('a', 'i')\<close> it calls \<open>path.replaceWith\<close> with a regex literal, and after
  the visit of that literal the tree holds a regex literal, not the call with two string
  literal arguments.
\<close>

theorem NewExpression_replaces_call:
  "isNewRegExp (Identifier ''RegExp'') [StringLiteral ''a'', StringLiteral ''i''] = JBool True
   \<and> visit_NewExpression no_options (Identifier ''RegExp'')
        [StringLiteral ''a'', StringLiteral ''i'']
       = (None, Replaced (RegExpLiteral ''a'' ''/i'' (Some ''/a/i'')))
   \<and> visit (constant_engine ''a'' ''i'') no_options
        (NewExpression (Identifier ''RegExp'') [StringLiteral ''a'', StringLiteral ''i''])
       = (None, RegExpLiteral ''a'' ''i'' (Some ''/a/i''))
   \<and> (\<forall>p f. snd (visit (constant_engine ''a'' ''i'') no_options
          (NewExpression (Identifier ''RegExp'') [StringLiteral ''a'', StringLiteral ''i'']))
        \<noteq> NewExpression (Identifier ''RegExp'') [StringLiteral p, StringLiteral f])"
  by (simp add: visit_def visit_NewExpression_def pattern_of_def flags_of_def
        toRegExpLiteral_def slice_def slice_from_def clamp_index_def
        visit_RegExpLiteral_def getTranslatedData_def no_options_def constant_engine_def)

text \<open>
  C1, amended: for every matched constructor call whose flags argument can be read, the
  visitor of index.js 301-329 replaces the call by the regex literal that
  \<open>toRegExpLiteral\<close> builds from slash, pattern, slash, flags; the translation happens
  afterwards, when that literal is visited: if it succeeds, the tree holds, in place of the
  call, a regex literal with the translated pattern and flags whose \<open>extra.raw\<close> is that
  raw text. The visitor of index.js 74-102 is the one that changes the call in place: when
  the translation of that raw text succeeds, the first argument becomes a string literal
  holding the translated pattern, the second a string literal holding the translated
  flags, and the callee and the arguments past the second stay as they were.
\<close>

theorem NewExpression_rewrite:
  assumes "isNewRegExp callee args = JBool True"
      and "flags_of args = Inr f"
  shows "\<exists>p. pattern_of args = Inr p
           \<and> visit_NewExpression st callee args
               = (None, Replaced (toRegExpLiteral (''/'' @ p @ ''/'' @ f)))
           \<and> (\<forall>d. getTranslatedData ct (''/'' @ p @ ''/'' @ f) st = Inr d \<longrightarrow>
                 visit ct st (NewExpression callee args)
                   = (None, RegExpLiteral (pattern d) (flags d) (Some (''/'' @ p @ ''/'' @ f)))
                 \<and> visit_NewExpression_inplace ct st callee args
                   = (None, Mutated (NewExpression callee
                        (StringLiteral (pattern d) # StringLiteral (flags d) # drop 2 args))))"
proof -
  from matched_pattern_of [OF assms(1)] obtain p where p: "pattern_of args = Inr p" ..
  let ?raw = "''/'' @ p @ ''/'' @ f"
  have r: "visit_NewExpression st callee args = (None, Replaced (toRegExpLiteral ?raw))"
    using assms p by (simp add: visit_NewExpression_def)
  have e: "visit ct st (NewExpression callee args)
             = (None, RegExpLiteral (pattern d) (flags d) (Some ?raw))"
    if "getTranslatedData ct ?raw st = Inr d" for d
  proof -
    have "visit_node ct st (toRegExpLiteral ?raw)
            = (None, Mutated (RegExpLiteral (pattern d) (flags d) (Some ?raw)))"
      using that by (simp add: toRegExpLiteral_def Let_def visit_RegExpLiteral_def)
    then show ?thesis using r by (simp add: visit_def)
  qed
  have i: "visit_NewExpression_inplace ct st callee args
             = (None, Mutated (NewExpression callee
                  (StringLiteral (pattern d) # StringLiteral (flags d) # drop 2 args)))"
    if "getTranslatedData ct ?raw st = Inr d" for d
    using that assms p by (simp add: visit_NewExpression_inplace_def)
  show ?thesis using p r e i by blast
qed

theorem NewExpression_rewrite_witness:
  "isNewRegExp (Identifier ''RegExp'')
      [StringLiteral ''(?<n>x)'', StringLiteral ''g'', Identifier ''extra''] = JBool True
   \<and> flags_of [StringLiteral ''(?<n>x)'', StringLiteral ''g'', Identifier ''extra''] = Inr ''g''
   \<and> getTranslatedData (constant_engine ''(x)'' ''g'') (''/(?<n>x)/g'') no_options
       = Inr \<lparr>pattern = ''(x)'', flags = ''g''\<rparr>
   \<and> visit_NewExpression_inplace (constant_engine ''(x)'' ''g'') no_options (Identifier ''RegExp'')
        [StringLiteral ''(?<n>x)'', StringLiteral ''g'', Identifier ''extra'']
       = (None, Mutated (NewExpression (Identifier ''RegExp'')
            [StringLiteral ''(x)'', StringLiteral ''g'', Identifier ''extra'']))
   \<and> visit_NewExpression no_options (Identifier ''RegExp'')
        [StringLiteral ''(?<n>x)'', StringLiteral ''g'', Identifier ''extra'']
       = (None, Replaced (toRegExpLiteral ''/(?<n>x)/g''))
   \<and> visit (constant_engine ''(x)'' ''g'') no_options
        (NewExpression (Identifier ''RegExp'')
           [StringLiteral ''(?<n>x)'', StringLiteral ''g'', Identifier ''extra''])
       = (None, RegExpLiteral ''(x)'' ''g'' (Some ''/(?<n>x)/g''))"
proof -
  have m: "isNewRegExp (Identifier ''RegExp'')
      [StringLiteral ''(?<n>x)'', StringLiteral ''g'', Identifier ''extra''] = JBool True"
    by simp
  have f: "flags_of [StringLiteral ''(?<n>x)'', StringLiteral ''g'', Identifier ''extra'']
      = Inr ''g''"
    by (simp add: flags_of_def)
  have p: "pattern_of [StringLiteral ''(?<n>x)'', StringLiteral ''g'', Identifier ''extra'']
      = Inr ''(?<n>x)''"
    by (simp add: pattern_of_def)
  have t: "getTranslatedData (constant_engine ''(x)'' ''g'') (''/(?<n>x)/g'') no_options
       = Inr \<lparr>pattern = ''(x)'', flags = ''g''\<rparr>"
    by (simp add: getTranslatedData_def constant_engine_def no_options_def)
  from NewExpression_rewrite [OF m f, of no_options "constant_engine ''(x)'' ''g''"] p t
  have "visit_NewExpression_inplace (constant_engine ''(x)'' ''g'') no_options
          (Identifier ''RegExp'')
          [StringLiteral ''(?<n>x)'', StringLiteral ''g'', Identifier ''extra'']
        = (None, Mutated (NewExpression (Identifier ''RegExp'')
            [StringLiteral ''(x)'', StringLiteral ''g'', Identifier ''extra'']))"
    and "visit_NewExpression no_options (Identifier ''RegExp'')
          [StringLiteral ''(?<n>x)'', StringLiteral ''g'', Identifier ''extra'']
        = (None, Replaced (toRegExpLiteral ''/(?<n>x)/g''))"
    and "visit (constant_engine ''(x)'' ''g'') no_options
          (NewExpression (Identifier ''RegExp'')
             [StringLiteral ''(?<n>x)'', StringLiteral ''g'', Identifier ''extra''])
        = (None, RegExpLiteral ''(x)'' ''g'' (Some ''/(?<n>x)/g''))"
    by auto
  then show ?thesis using m f t by simp
qed

text \<open>
  C9: when the first argument of a \<open>RegExp\<close> constructor call matches and the second
  argument is neither a string literal nor a template literal, the flags are read as the
  empty string and the rewrite goes on: the visitor of index.js 301-329 replaces the call
  by the literal built from slash, pattern, slash, and the visitor of index.js 74-102
  overwrites the second argument with the translated flags of that text. The second
  argument the call had appears in neither result.
\<close>

theorem dynamic_flags_discarded:
  assumes "isNewRegExp callee (a0 # a1 # rest) = JBool True"
      and "\<forall>v. a1 \<noteq> StringLiteral v"
      and "\<forall>quasis expressions. a1 \<noteq> TemplateLiteral quasis expressions"
  shows "\<exists>p. pattern_of [a0] = Inr p
            \<and> flags_of (a0 # a1 # rest) = Inr []
            \<and> visit_NewExpression st callee (a0 # a1 # rest)
                = (None, Replaced (toRegExpLiteral (''/'' @ p @ ''/'')))
            \<and> visit_NewExpression_inplace ct st callee (a0 # a1 # rest)
                = (case getTranslatedData ct (''/'' @ p @ ''/'') st of
                     Inl e \<Rightarrow> (Some e, Untouched)
                   | Inr d \<Rightarrow> (None, Mutated (NewExpression callee
                       (StringLiteral (pattern d) # StringLiteral (flags d) # rest))))"
proof -
  have f: "flags_of (a0 # a1 # rest) = Inr []"
    using assms(2,3) by (cases a1) (auto simp: flags_of_def)
  from assms(1) have "(\<exists>v. a0 = StringLiteral v) \<or> (\<exists>q. a0 = TemplateLiteral [q] [])"
    by (cases "(callee, a0 # a1 # rest)" rule: isNewRegExp.cases)
       (auto split: node.splits if_splits simp: length_Suc_conv)
  then obtain p where p: "pattern_of [a0] = Inr p" "pattern_of (a0 # a1 # rest) = Inr p"
    by (auto simp: pattern_of_def)
  show ?thesis
    using assms(1) f p
    by (auto simp: visit_NewExpression_def visit_NewExpression_inplace_def split: sum.splits)
qed

theorem dynamic_flags_discarded_witness:
  "isNewRegExp (Identifier ''RegExp'') [StringLiteral ''a'', Identifier ''flags''] = JBool True
   \<and> visit_NewExpression no_options (Identifier ''RegExp'')
        [StringLiteral ''a'', Identifier ''flags'']
       = (None, Replaced (toRegExpLiteral ''/a/''))
   \<and> visit_NewExpression_inplace (constant_engine ''a'' []) no_options (Identifier ''RegExp'')
        [StringLiteral ''a'', Identifier ''flags'']
       = (None, Mutated (NewExpression (Identifier ''RegExp'')
            [StringLiteral ''a'', StringLiteral []]))"
proof -
  have m: "isNewRegExp (Identifier ''RegExp'') [StringLiteral ''a'', Identifier ''flags'']
      = JBool True"
    by simp
  have p: "pattern_of [StringLiteral ''a''] = Inr ''a''"
    by (simp add: pattern_of_def)
  have t: "getTranslatedData (constant_engine ''a'' []) ''/a/'' no_options
       = Inr \<lparr>pattern = ''a'', flags = []\<rparr>"
    by (simp add: getTranslatedData_def constant_engine_def no_options_def)
  from dynamic_flags_discarded
    [OF m, of no_options "constant_engine ''a'' []"] p t
  have "visit_NewExpression no_options (Identifier ''RegExp'')
          [StringLiteral ''a'', Identifier ''flags'']
        = (None, Replaced (toRegExpLiteral ''/a/''))"
    and "visit_NewExpression_inplace (constant_engine ''a'' []) no_options
          (Identifier ''RegExp'') [StringLiteral ''a'', Identifier ''flags'']
        = (None, Mutated (NewExpression (Identifier ''RegExp'')
            [StringLiteral ''a'', StringLiteral []]))"
    by auto
  then show ?thesis using m by simp
qed

section \<open>A translation that raises\<close>

text \<open>
  C3 as stated fails for the constructor call under the visitor of index.js 301-329 (and
  in the same way for the shorthand template): with an engine that rejects the text, the
  visit of \<open>new RegExp('(')\<close> ends with the exception, and the tree holds the
  untranslated literal that replaced the call, not the call.
\<close>

theorem replaced_before_translation:
  "rejecting_engine ''/(/'' JUndefined = Inl (SyntaxError ''/(/'')
   \<and> visit_NewExpression no_options (Identifier ''RegExp'') [StringLiteral ''('']
       = (None, Replaced (RegExpLiteral ''('' ''/'' (Some ''/(/'')))
   \<and> visit rejecting_engine no_options
        (NewExpression (Identifier ''RegExp'') [StringLiteral ''(''])
       = (Some (SyntaxError ''/(/''), RegExpLiteral ''('' ''/'' (Some ''/(/''))
   \<and> RegExpLiteral ''('' ''/'' (Some ''/(/'')
       \<noteq> NewExpression (Identifier ''RegExp'') [StringLiteral ''('']"
  by (simp add: visit_def visit_NewExpression_def pattern_of_def flags_of_def
        toRegExpLiteral_def slice_def slice_from_def clamp_index_def
        visit_RegExpLiteral_def getTranslatedData_def no_options_def rejecting_engine_def)

text \<open>
  C3, amended: if the translation raises for a regex literal's raw text, the RegExpLiteral
  visitor leaves the literal as it was; if it raises for the raw text of a matched
  constructor call, the visitor of index.js 74-102 leaves the call as it was. The
  visitors of index.js 279-329 do not translate: they replace the constructor call or the
  shorthand template by the untranslated literal first, so when the translation then
  raises on the visit of that literal, the tree holds the untranslated literal in place
  of the original node.
\<close>

theorem failed_translation:
  "(getTranslatedData ct raw st = Inl e \<longrightarrow>
      visit_RegExpLiteral ct st pat fl (Some raw) = (Some e, Untouched)
      \<and> visit ct st (RegExpLiteral pat fl (Some raw)) = (Some e, RegExpLiteral pat fl (Some raw)))
   \<and> (isNewRegExp callee args = JBool True \<and> pattern_of args = Inr p \<and> flags_of args = Inr f
        \<and> getTranslatedData ct (''/'' @ p @ ''/'' @ f) st = Inl e \<longrightarrow>
      visit_NewExpression_inplace ct st callee args = (Some e, Untouched)
      \<and> visit_NewExpression st callee args
          = (None, Replaced (toRegExpLiteral (''/'' @ p @ ''/'' @ f)))
      \<and> visit ct st (NewExpression callee args)
          = (Some e, toRegExpLiteral (''/'' @ p @ ''/'' @ f)))
   \<and> (truthy (useRe (opts st)) \<and> isReTemplate tag (TemplateLiteral [q] es)
        \<and> getTranslatedData ct (unescape_backrefs (value_raw q)) st = Inl e \<longrightarrow>
      visit_TaggedTemplateExpression st tag (TemplateLiteral [q] es)
          = (None, Replaced (toRegExpLiteral (unescape_backrefs (value_raw q))))
      \<and> visit ct st (TaggedTemplateExpression tag (TemplateLiteral [q] es))
          = (Some e, toRegExpLiteral (unescape_backrefs (value_raw q))))"
proof (intro conjI impI)
  assume a: "getTranslatedData ct raw st = Inl e"
  show "visit_RegExpLiteral ct st pat fl (Some raw) = (Some e, Untouched)"
    using a by (simp add: visit_RegExpLiteral_def)
  then show "visit ct st (RegExpLiteral pat fl (Some raw))
      = (Some e, RegExpLiteral pat fl (Some raw))"
    by (simp add: visit_def)
next
  assume a: "isNewRegExp callee args = JBool True \<and> pattern_of args = Inr p
        \<and> flags_of args = Inr f
        \<and> getTranslatedData ct (''/'' @ p @ ''/'' @ f) st = Inl e"
  show "visit_NewExpression_inplace ct st callee args = (Some e, Untouched)"
    using a by (simp add: visit_NewExpression_inplace_def)
  show r: "visit_NewExpression st callee args
          = (None, Replaced (toRegExpLiteral (''/'' @ p @ ''/'' @ f)))"
    using a by (simp add: visit_NewExpression_def)
  have "visit_node ct st (toRegExpLiteral (''/'' @ p @ ''/'' @ f)) = (Some e, Untouched)"
    using a by (simp add: toRegExpLiteral_def Let_def visit_RegExpLiteral_def)
  then show "visit ct st (NewExpression callee args)
          = (Some e, toRegExpLiteral (''/'' @ p @ ''/'' @ f))"
    using r by (simp add: visit_def)
next
  assume a: "truthy (useRe (opts st)) \<and> isReTemplate tag (TemplateLiteral [q] es)
        \<and> getTranslatedData ct (unescape_backrefs (value_raw q)) st = Inl e"
  show r: "visit_TaggedTemplateExpression st tag (TemplateLiteral [q] es)
          = (None, Replaced (toRegExpLiteral (unescape_backrefs (value_raw q))))"
    using a by (simp add: visit_TaggedTemplateExpression_def)
  have "visit_node ct st (toRegExpLiteral (unescape_backrefs (value_raw q)))
      = (Some e, Untouched)"
    using a by (simp add: toRegExpLiteral_def Let_def visit_RegExpLiteral_def)
  then show "visit ct st (TaggedTemplateExpression tag (TemplateLiteral [q] es))
          = (Some e, toRegExpLiteral (unescape_backrefs (value_raw q)))"
    using r by (simp add: visit_def)
qed

theorem failed_translation_witness:
  "getTranslatedData rejecting_engine ''/(/'' no_options = Inl (SyntaxError ''/(/'')
   \<and> visit rejecting_engine no_options (RegExpLiteral ''('' [] (Some ''/(/''))
       = (Some (SyntaxError ''/(/''), RegExpLiteral ''('' [] (Some ''/(/''))
   \<and> isNewRegExp (Identifier ''RegExp'') [StringLiteral ''(''] = JBool True
   \<and> visit_NewExpression_inplace rejecting_engine no_options (Identifier ''RegExp'')
        [StringLiteral ''(''] = (Some (SyntaxError ''/(/''), Untouched)
   \<and> truthy (useRe (opts \<lparr>opts = \<lparr>features = JUndefined, useRe = JBool True,
        useRuntime = JUndefined\<rparr>\<rparr>))
   \<and> isReTemplate (Identifier ''re'') (TemplateLiteral [TemplateElement ''/(/'' ''/(/''] [])
   \<and> visit rejecting_engine
        \<lparr>opts = \<lparr>features = JUndefined, useRe = JBool True, useRuntime = JUndefined\<rparr>\<rparr>
        (TaggedTemplateExpression (Identifier ''re'')
           (TemplateLiteral [TemplateElement ''/(/'' ''/(/''] []))
       = (Some (SyntaxError ''/(/''), toRegExpLiteral ''/(/'')"
proof -
  have g: "getTranslatedData rejecting_engine ''/(/'' st = Inl (SyntaxError ''/(/'')" for st
    by (simp add: getTranslatedData_def rejecting_engine_def)
  have m: "isNewRegExp (Identifier ''RegExp'') [StringLiteral ''(''] = JBool True"
    by simp
  have p: "pattern_of [StringLiteral ''(''] = Inr ''(''"
    by (simp add: pattern_of_def)
  have f: "flags_of [StringLiteral ''(''] = Inr []"
    by (simp add: flags_of_def)
  have u: "unescape_backrefs ''/(/'' = ''/(/''"
    by simp
  have r: "isReTemplate (Identifier ''re'') (TemplateLiteral [TemplateElement ''/(/'' ''/(/''] [])"
    by simp
  have 1: "visit rejecting_engine no_options (RegExpLiteral ''('' [] (Some ''/(/''))
       = (Some (SyntaxError ''/(/''), RegExpLiteral ''('' [] (Some ''/(/''))"
    using failed_translation [where ct = rejecting_engine and raw = "''/(/''"
        and st = no_options and e = "SyntaxError ''/(/''" and pat = "''(''" and fl = "[]"] g
    by blast
  have 2: "visit_NewExpression_inplace rejecting_engine no_options (Identifier ''RegExp'')
        [StringLiteral ''(''] = (Some (SyntaxError ''/(/''), Untouched)"
    using failed_translation [where ct = rejecting_engine and st = no_options
        and e = "SyntaxError ''/(/''" and callee = "Identifier ''RegExp''"
        and args = "[StringLiteral ''('']" and p = "''(''" and f = "[]"] g m p f
    by simp
  have 3: "visit rejecting_engine
        \<lparr>opts = \<lparr>features = JUndefined, useRe = JBool True, useRuntime = JUndefined\<rparr>\<rparr>
        (TaggedTemplateExpression (Identifier ''re'')
           (TemplateLiteral [TemplateElement ''/(/'' ''/(/''] []))
       = (Some (SyntaxError ''/(/''), toRegExpLiteral ''/(/'')"
    using failed_translation [where ct = rejecting_engine
        and st = "\<lparr>opts = \<lparr>features = JUndefined, useRe = JBool True,
                     useRuntime = JUndefined\<rparr>\<rparr>"
        and e = "SyntaxError ''/(/''" and tag = "Identifier ''re''"
        and q = "TemplateElement ''/(/'' ''/(/''" and es = "[]"] g r u
    by simp
  show ?thesis using g m r 1 2 3 by simp
qed

section \<open>Configuration and the whitelist\<close>

text \<open>
  C4, at the plugin options \<open>{useRuntime: true}\<close> and the literal \<open>/./s\<close>: called by hand
  on the plugin's state, \<open>pre\<close> raises; but the host hands \<open>pre\<close> the File, whose
  options hold no \<open>useRuntime\<close>, so the pass raises nothing and the literal is translated.
\<close>

theorem useRuntime_option_not_rejected:
  "truthy (useRuntime (opts
      \<lparr>opts = \<lparr>features = JUndefined, useRe = JUndefined, useRuntime = JBool True\<rparr>\<rparr>))
   \<and> pre \<lparr>opts = \<lparr>features = JUndefined, useRe = JUndefined, useRuntime = JBool True\<rparr>\<rparr>
       = Inl (Error ''useRuntime is not implemented yet.'')
   \<and> pre host_file = Inr ()
   \<and> transform (constant_engine ''[x]'' [])
        \<lparr>opts = \<lparr>features = JUndefined, useRe = JUndefined, useRuntime = JBool True\<rparr>\<rparr>
        [RegExpLiteral ''.'' ''s'' (Some ''/./s'')]
       = (None, [RegExpLiteral ''[x]'' [] (Some ''/./s'')])"
  by (simp add: pre_def host_file_def transform_def visit_def visit_RegExpLiteral_def
        getTranslatedData_def constant_engine_def)

text \<open>
  C6: \<open>getTranslatedData\<close> calls the engine with \<open>opts.features\<close> as the whitelist when
  that is an array with at least one element, and with \<open>undefined\<close> otherwise (absent,
  an empty array, or a value that is no array); its result is the engine's, so a features
  value of another shape raises nothing by itself.
\<close>

theorem getTranslatedData_whitelist:
  "getTranslatedData ct regexp st =
     (case ct regexp (if \<exists>x xs. features (opts st) = JArr (x # xs)
                      then features (opts st) else JUndefined) of
        Inl e \<Rightarrow> Inl e
      | Inr c \<Rightarrow> Inr \<lparr>pattern = getSource c, flags = getFlags c\<rparr>)
   \<and> ((\<nexists>x xs. features (opts st) = JArr (x # xs)) \<and> ct regexp JUndefined = Inr c \<longrightarrow>
        getTranslatedData ct regexp st = Inr \<lparr>pattern = getSource c, flags = getFlags c\<rparr>)"
proof -
  have "(isArray v \<and> 0 < array_length v) = (\<exists>x xs. v = JArr (x # xs))" for v
    by (cases v) (auto simp: neq_Nil_conv)
  then show ?thesis
    by (auto simp: getTranslatedData_def Let_def)
qed

theorem getTranslatedData_whitelist_witness:
  "(\<nexists>x xs. features (opts \<lparr>opts = \<lparr>features = JStr ''xFlag'', useRe = JUndefined,
        useRuntime = JUndefined\<rparr>\<rparr>) = JArr (x # xs))
   \<and> constant_engine ''a'' ''g'' ''/a/g'' JUndefined = Inr \<lparr>getSource = ''a'', getFlags = ''g''\<rparr>
   \<and> getTranslatedData (constant_engine ''a'' ''g'') ''/a/g''
        \<lparr>opts = \<lparr>features = JStr ''xFlag'', useRe = JUndefined, useRuntime = JUndefined\<rparr>\<rparr>
       = Inr \<lparr>pattern = ''a'', flags = ''g''\<rparr>
   \<and> getTranslatedData (\<lambda>raw whitelist. if whitelist = JArr [JStr ''xFlag'']
          then Inr \<lparr>getSource = ''listed'', getFlags = []\<rparr>
          else Inr \<lparr>getSource = ''default'', getFlags = []\<rparr>) ''/./s''
        \<lparr>opts = \<lparr>features = JArr [JStr ''xFlag''], useRe = JUndefined,
           useRuntime = JUndefined\<rparr>\<rparr>
       = Inr \<lparr>pattern = ''listed'', flags = []\<rparr>"
proof -
  have n: "\<nexists>x xs. features (opts \<lparr>opts = \<lparr>features = JStr ''xFlag'', useRe = JUndefined,
        useRuntime = JUndefined\<rparr>\<rparr>) = JArr (x # xs)"
    by simp
  have c: "constant_engine ''a'' ''g'' ''/a/g'' JUndefined
      = Inr \<lparr>getSource = ''a'', getFlags = ''g''\<rparr>"
    by (simp add: constant_engine_def)
  have 1: "getTranslatedData (constant_engine ''a'' ''g'') ''/a/g''
        \<lparr>opts = \<lparr>features = JStr ''xFlag'', useRe = JUndefined, useRuntime = JUndefined\<rparr>\<rparr>
       = Inr \<lparr>pattern = ''a'', flags = ''g''\<rparr>"
    using getTranslatedData_whitelist [of "constant_engine ''a'' ''g''" "''/a/g''"
        "\<lparr>opts = \<lparr>features = JStr ''xFlag'', useRe = JUndefined, useRuntime = JUndefined\<rparr>\<rparr>"
        "\<lparr>getSource = ''a'', getFlags = ''g''\<rparr>"] n c
    by simp
  have 2: "getTranslatedData (\<lambda>raw whitelist. if whitelist = JArr [JStr ''xFlag'']
          then Inr \<lparr>getSource = ''listed'', getFlags = []\<rparr>
          else Inr \<lparr>getSource = ''default'', getFlags = []\<rparr>) ''/./s''
        \<lparr>opts = \<lparr>features = JArr [JStr ''xFlag''], useRe = JUndefined,
           useRuntime = JUndefined\<rparr>\<rparr>
       = Inr \<lparr>pattern = ''listed'', flags = []\<rparr>"
    by (simp add: getTranslatedData_def)
  show ?thesis using n c 1 2 by simp
qed

section \<open>The shorthand template\<close>

text \<open>
  C8: a tagged template whose template literal is well formed is rewritten exactly when
  the \<open>useRe\<close> option is truthy, the tag is the identifier \<open>re\<close> and the template has
  one chunk and no interpolated expression. Rewritten means: the visitor replaces the
  node by the regex literal that \<open>toRegExpLiteral\<close> builds from the normalised raw text
  of the chunk, and once that literal is visited and translated, the tree holds a regex
  literal with the translated pattern and flags. When one of the three conditions fails,
  the visitor returns, and the tagged template stands in the tree as it was.
\<close>

theorem re_template_rewritten_iff:
  assumes "well_formed_template quasi"
  shows "((\<exists>q. quasi = TemplateLiteral [q] []
             \<and> visit_TaggedTemplateExpression st tag quasi
                 = (None, Replaced (toRegExpLiteral (unescape_backrefs (value_raw q))))) \<longleftrightarrow>
            truthy (useRe (opts st)) \<and> tag = Identifier ''re''
            \<and> (\<exists>q. quasi = TemplateLiteral [q] []))
         \<and> (\<forall>q d. truthy (useRe (opts st)) \<and> tag = Identifier ''re''
                 \<and> quasi = TemplateLiteral [q] []
                 \<and> getTranslatedData ct (unescape_backrefs (value_raw q)) st = Inr d \<longrightarrow>
               visit ct st (TaggedTemplateExpression tag quasi)
                 = (None, RegExpLiteral (pattern d) (flags d)
                            (Some (unescape_backrefs (value_raw q)))))
         \<and> (\<not> (truthy (useRe (opts st)) \<and> tag = Identifier ''re''
                 \<and> (\<exists>q. quasi = TemplateLiteral [q] [])) \<longrightarrow>
              visit_TaggedTemplateExpression st tag quasi = (None, Untouched)
              \<and> visit ct st (TaggedTemplateExpression tag quasi)
                  = (None, TaggedTemplateExpression tag quasi))"
proof -
  have m: "isReTemplate tag quasi \<longleftrightarrow>
      tag = Identifier ''re'' \<and> (\<exists>q. quasi = TemplateLiteral [q] [])"
    using assms
    by (cases "(tag, quasi)" rule: isReTemplate.cases) (auto simp: length_Suc_conv)
  have a: "(\<exists>q. quasi = TemplateLiteral [q] []
             \<and> visit_TaggedTemplateExpression st tag quasi
                 = (None, Replaced (toRegExpLiteral (unescape_backrefs (value_raw q))))) \<longleftrightarrow>
            truthy (useRe (opts st)) \<and> tag = Identifier ''re''
            \<and> (\<exists>q. quasi = TemplateLiteral [q] [])"
    unfolding visit_TaggedTemplateExpression_def m by auto
  have b: "visit ct st (TaggedTemplateExpression tag quasi)
                 = (None, RegExpLiteral (pattern d) (flags d)
                            (Some (unescape_backrefs (value_raw q))))"
    if "truthy (useRe (opts st)) \<and> tag = Identifier ''re''
          \<and> quasi = TemplateLiteral [q] []
          \<and> getTranslatedData ct (unescape_backrefs (value_raw q)) st = Inr d" for q d
  proof -
    have r: "visit_TaggedTemplateExpression st tag quasi
               = (None, Replaced (toRegExpLiteral (unescape_backrefs (value_raw q))))"
      using that by (simp add: visit_TaggedTemplateExpression_def)
    have "visit_node ct st (toRegExpLiteral (unescape_backrefs (value_raw q)))
            = (None, Mutated (RegExpLiteral (pattern d) (flags d)
                 (Some (unescape_backrefs (value_raw q)))))"
      using that by (simp add: toRegExpLiteral_def Let_def visit_RegExpLiteral_def)
    then show ?thesis using r by (simp add: visit_def)
  qed
  have c: "visit_TaggedTemplateExpression st tag quasi = (None, Untouched)
              \<and> visit ct st (TaggedTemplateExpression tag quasi)
                  = (None, TaggedTemplateExpression tag quasi)"
    if "\<not> (truthy (useRe (opts st)) \<and> tag = Identifier ''re''
                 \<and> (\<exists>q. quasi = TemplateLiteral [q] []))"
  proof -
    have u: "visit_TaggedTemplateExpression st tag quasi = (None, Untouched)"
      using that unfolding visit_TaggedTemplateExpression_def m by auto
    then show ?thesis by (simp add: visit_def)
  qed
  show ?thesis using a b c by blast
qed

theorem re_template_rewritten_iff_witness:
  "well_formed_template (TemplateLiteral [TemplateElement ''/x/g'' ''/x/g''] [])
   \<and> visit_TaggedTemplateExpression
          \<lparr>opts = \<lparr>features = JUndefined, useRe = JBool True, useRuntime = JUndefined\<rparr>\<rparr>
          (Identifier ''re'') (TemplateLiteral [TemplateElement ''/x/g'' ''/x/g''] [])
        = (None, Replaced (RegExpLiteral ''x'' ''/g'' (Some ''/x/g'')))
   \<and> visit (constant_engine ''x'' ''g'')
          \<lparr>opts = \<lparr>features = JUndefined, useRe = JBool True, useRuntime = JUndefined\<rparr>\<rparr>
          (TaggedTemplateExpression (Identifier ''re'')
             (TemplateLiteral [TemplateElement ''/x/g'' ''/x/g''] []))
        = (None, RegExpLiteral ''x'' ''g'' (Some ''/x/g''))
   \<and> visit_TaggedTemplateExpression no_options
          (Identifier ''re'') (TemplateLiteral [TemplateElement ''/x/g'' ''/x/g''] [])
        = (None, Untouched)
   \<and> visit (constant_engine ''x'' ''g'') no_options
          (TaggedTemplateExpression (Identifier ''re'')
             (TemplateLiteral [TemplateElement ''/x/g'' ''/x/g''] []))
        = (None, TaggedTemplateExpression (Identifier ''re'')
             (TemplateLiteral [TemplateElement ''/x/g'' ''/x/g''] []))"
proof -
  let ?on = "\<lparr>opts = \<lparr>features = JUndefined, useRe = JBool True, useRuntime = JUndefined\<rparr>\<rparr>"
  let ?q = "TemplateElement ''/x/g'' ''/x/g''"
  have w: "well_formed_template (TemplateLiteral [?q] [])"
    by simp
  have u: "unescape_backrefs ''/x/g'' = ''/x/g''"
    by simp
  have l: "toRegExpLiteral ''/x/g'' = RegExpLiteral ''x'' ''/g'' (Some ''/x/g'')"
    by (simp add: toRegExpLiteral_def slice_def slice_from_def clamp_index_def)
  have t: "getTranslatedData (constant_engine ''x'' ''g'') ''/x/g'' ?on
             = Inr \<lparr>pattern = ''x'', flags = ''g''\<rparr>"
    by (simp add: getTranslatedData_def constant_engine_def)
  note thm_on = re_template_rewritten_iff [OF w, of ?on "Identifier ''re''"
      "constant_engine ''x'' ''g''"]
  note thm_off = re_template_rewritten_iff [OF w, of no_options "Identifier ''re''"
      "constant_engine ''x'' ''g''"]
  have 1: "visit_TaggedTemplateExpression ?on (Identifier ''re'') (TemplateLiteral [?q] [])
        = (None, Replaced (RegExpLiteral ''x'' ''/g'' (Some ''/x/g'')))"
    using thm_on u l by simp
  have 2: "visit (constant_engine ''x'' ''g'') ?on
          (TaggedTemplateExpression (Identifier ''re'') (TemplateLiteral [?q] []))
        = (None, RegExpLiteral ''x'' ''g'' (Some ''/x/g''))"
    using thm_on u t by simp
  have 3: "visit_TaggedTemplateExpression no_options
          (Identifier ''re'') (TemplateLiteral [?q] []) = (None, Untouched)
     \<and> visit (constant_engine ''x'' ''g'') no_options
          (TaggedTemplateExpression (Identifier ''re'') (TemplateLiteral [?q] []))
        = (None, TaggedTemplateExpression (Identifier ''re'') (TemplateLiteral [?q] []))"
    using thm_off by (simp add: no_options_def)
  show ?thesis using w 1 2 3 by simp
qed

text \<open>
  C5: the normalisation of the chunk's raw text turns every occurrence of two backslashes
  followed by digits into one backslash followed by the same digits and copies the rest.
  With \<open>u\<close> a text without such an occurrence, \<open>d\<close> a non-empty run of digits and \<open>v\<close>
  a text that does not start with a digit, the text \<open>u\<close>, two backslashes, \<open>d\<close>, \<open>v\<close>
  becomes \<open>u\<close>, one backslash, \<open>d\<close> and the normalisation of \<open>v\<close>; a text without an
  occurrence (one backslash followed by digits, say) is left as it is.
\<close>

theorem unescape_backrefs_spec:
  "(\<not> has_escaped_backref u \<and> d \<noteq> [] \<and> list_all digit d
      \<and> (case v of [] \<Rightarrow> True | c # cs \<Rightarrow> \<not> digit c) \<longrightarrow>
      unescape_backrefs (u @ [backslash, backslash] @ d @ v)
        = u @ [backslash] @ d @ unescape_backrefs v)
   \<and> (\<not> has_escaped_backref s \<longrightarrow> unescape_backrefs s = s)"
proof (intro conjI impI)
  assume a: "\<not> has_escaped_backref u \<and> d \<noteq> [] \<and> list_all digit d
      \<and> (case v of [] \<Rightarrow> True | c # cs \<Rightarrow> \<not> digit c)"
  then have tw: "takeWhile digit (d @ v) = d" "dropWhile digit (d @ v) = v"
    using takeWhile_digits_run by blast+
  have "unescape_backrefs (backslash # backslash # d @ v)
      = backslash # d @ unescape_backrefs v"
    using a tw by simp
  then show "unescape_backrefs (u @ [backslash, backslash] @ d @ v)
        = u @ [backslash] @ d @ unescape_backrefs v"
    using unescape_prefix [of u "d @ v"] a by simp
next
  assume "\<not> has_escaped_backref s"
  then show "unescape_backrefs s = s" by (rule unescape_no_occurrence)
qed

theorem unescape_backrefs_spec_witness:
  "\<not> has_escaped_backref ''/(?<name>x)''
   \<and> list_all digit ''12''
   \<and> \<not> has_escaped_backref (backslash # ''k<name>/'')
   \<and> unescape_backrefs (''/(?<name>x)'' @ [backslash, backslash] @ ''12''
                          @ (backslash # ''k<name>/''))
       = ''/(?<name>x)'' @ [backslash] @ ''12'' @ (backslash # ''k<name>/'')
   \<and> \<not> has_escaped_backref (backslash # ''1'')
   \<and> unescape_backrefs (backslash # ''1'') = backslash # ''1''"
proof -
  have u: "\<not> has_escaped_backref ''/(?<name>x)''"
    by (simp add: digit_def)
  have d: "list_all digit ''12''"
    by (simp add: digit_def)
  have v: "\<not> has_escaped_backref (backslash # ''k<name>/'')"
    by (simp add: digit_def)
  have s: "\<not> has_escaped_backref (backslash # ''1'')"
    by simp
  have v': "unescape_backrefs (backslash # ''k<name>/'') = backslash # ''k<name>/''"
    using unescape_backrefs_spec [where s = "backslash # ''k<name>/''"] v by blast
  have 1: "unescape_backrefs (''/(?<name>x)'' @ [backslash, backslash] @ ''12''
                          @ (backslash # ''k<name>/''))
       = ''/(?<name>x)'' @ [backslash] @ ''12'' @ unescape_backrefs (backslash # ''k<name>/'')"
    using unescape_backrefs_spec [where u = "''/(?<name>x)''" and d = "''12''"
        and v = "backslash # ''k<name>/''"] u d
    by (simp add: not_digit_backslash)
  have 2: "unescape_backrefs (backslash # ''1'') = backslash # ''1''"
    using unescape_backrefs_spec [where s = "backslash # ''1''"] s by blast
  show ?thesis using u d v s 1 2 v' by simp
qed

end
